theory Spec2Isabelle
  imports Complex_Main
begin

section \<open>The data collector of hello-myo.cpp\<close>

text \<open>
  The program is one class, \<open>DataCollector\<close>, whose member functions are called by the
  event loop of \<open>main\<close>: the handlers \<open>on...\<close> whenever the device reports something, and
  \<open>print\<close> once per iteration. The class is a record, every member function a function
  from the collector before the call to the collector after it.

  Conventions of the embedding:
  \<^item> a finite C++ \<open>float\<close> is the real number it denotes. The display values and the home
    values are always finite and are of type \<^typ>\<open>real\<close>; the three accumulators, which
    the constructor leaves uninitialised, are of the type \<open>float\<close> below, which adds the
    infinities and NaN;
  \<^item> the float operations of \<open>print\<close> and \<open>epsilonCompare\<close> (the conversion of 0.7, the
    additions and subtractions) round to binary32, to nearest with ties to even, and
    overflow to an infinity; comparison and \<open>abs\<close> are exact, as they are in the machine;
  \<^item> \<open>onOrientationData\<close> computes with exact real numbers and the mathematical atan2 and
    arcsine: its own roundings and those of the library functions are outside the model;
  \<^item> \<open>abs\<close> is the floating-point overload that \<open>cmath\<close> provides;
  \<^item> what \<open>print\<close> writes to \<open>std::cout\<close>, and the commands it hands to \<open>system\<close>, are
    collected in the field \<open>cout\<close>, oldest first, one entry per operand of \<open><<\<close>;
  \<^item> the two-second busy wait on \<open>time(NULL)\<close> changes no member and is the identity.
\<close>

subsection \<open>Types of the device library\<close>

text \<open>
  Modelled from the spec: the header myo.hpp of the device library (\<open>myo::Pose\<close>,
  \<open>myo::Arm\<close>, \<open>myo::Quaternion\<close>) is not among the sources. The glossary names the poses
  fist, fingers-spread, wave-out, rest and unknown; the enumeration below is the library's
  full list with the library's own spelling, which \<open>Pose::toString\<close> returns and \<open>print\<close>
  compares with.
\<close>

datatype Pose = rest | fist | waveIn | waveOut | fingersSpread | doubleTap | unknown

fun toString :: "Pose \<Rightarrow> string" where
  "toString rest = ''rest''"
| "toString fist = ''fist''"
| "toString waveIn = ''waveIn''"
| "toString waveOut = ''waveOut''"
| "toString fingersSpread = ''fingersSpread''"
| "toString doubleTap = ''doubleTap''"
| "toString unknown = ''unknown''"

datatype Arm = armLeft | armRight | armUnknown

datatype Quaternion = Quaternion (qx: real) (qy: real) (qz: real) (qw: real)

text \<open>
  The two-argument arctangent of \<open>cmath\<close>: the angle of the point \<open>(x, y)\<close>, in
  \<open>(-pi, pi]\<close>, and 0 at the origin.
\<close>

definition atan2 :: "real \<Rightarrow> real \<Rightarrow> real" where
  "atan2 y x =
     (if 0 < x then arctan (y / x)
      else if x < 0 then (if 0 \<le> y then arctan (y / x) + pi else arctan (y / x) - pi)
      else if 0 < y then pi / 2
      else if y < 0 then - (pi / 2)
      else 0)"

subsection \<open>Binary32 values and their arithmetic\<close>

text \<open>
  A value of the C++ type \<open>float\<close>: a finite number, an infinity, or NaN. The comparison
  \<open><\<close> is the one of the machine: false whenever an operand is NaN.
\<close>

datatype float = Finite real | PlusInf | MinusInf | NaN

instantiation float :: ord
begin

fun less_float :: "float \<Rightarrow> float \<Rightarrow> bool" where
  "less_float (Finite a) (Finite b) = (a < b)"
| "less_float (Finite a) PlusInf = True"
| "less_float MinusInf (Finite b) = True"
| "less_float MinusInf PlusInf = True"
| "less_float _ _ = False"

definition less_eq_float :: "float \<Rightarrow> float \<Rightarrow> bool" where
  "less_eq_float x y = (x < y \<or> (x = y \<and> x \<noteq> NaN))"

instance ..

end

text \<open>
  Rounding a real number to binary32. \<open>round_even\<close> rounds to the nearest integer, a tie
  to the even one. \<open>rnd32\<close> scales by the unit in the last place of the number's binade
  (24 significant bits, the exponent not below -126, which gives the subnormal numbers)
  and rounds; \<open>to_float\<close> turns a result beyond the largest finite float into an
  infinity.
\<close>

definition round_even :: "real \<Rightarrow> int" where
  "round_even y =
     (let f = \<lfloor>y\<rfloor>
      in if y - of_int f < 1 / 2 then f
         else if 1 / 2 < y - of_int f then f + 1
         else if even f then f else f + 1)"

definition rnd32 :: "real \<Rightarrow> real" where
  "rnd32 x =
     (if x = 0 then 0
      else (let e = max \<lfloor>log 2 \<bar>x\<bar>\<rfloor> (- 126);
                u = 2 powr (of_int e - 23)
            in of_int (round_even (x / u)) * u))"

definition to_float :: "real \<Rightarrow> float" where
  "to_float x =
     (let r = rnd32 x
      in if 2 ^ 128 \<le> \<bar>r\<bar> then (if 0 < r then PlusInf else MinusInf) else Finite r)"

text \<open>Subtraction and addition of two finite floats, and \<open>abs\<close>.\<close>

definition fsub :: "real \<Rightarrow> real \<Rightarrow> float" where
  "fsub a b = to_float (a - b)"

definition fadd :: "real \<Rightarrow> real \<Rightarrow> float" where
  "fadd a b = to_float (a + b)"

fun fabs :: "float \<Rightarrow> float" where
  "fabs (Finite a) = Finite \<bar>a\<bar>"
| "fabs PlusInf = PlusInf"
| "fabs MinusInf = PlusInf"
| "fabs NaN = NaN"

subsection \<open>The members of the class\<close>

text \<open>
  The operands of \<open><<\<close> by their C++ type: a character, a string literal, a
  \<open>std::string\<close>, a float, and the manipulators \<open>std::endl\<close> and \<open>std::flush\<close>.
\<close>

datatype effect =
    CoutChar char | CoutLiteral string | CoutString string | CoutFloat float
  | Endl | Flush | SystemCall string

record DataCollector =
  onArm :: bool
  whichArm :: Arm
  isUnlocked :: bool
  roll_w :: real
  pitch_w :: real
  yaw_w :: real
  currentPose :: Pose
  home_roll :: real
  home_yaw :: real
  home_pitch :: real
  max_roll :: float
  max_yaw :: float
  max_pitch :: float
  gestures :: string
  word :: string
  cout :: "effect list"

text \<open>
  The constructor initialises \<open>onArm\<close>, \<open>isUnlocked\<close>, the three display values and the
  pose (a default \<open>myo::Pose\<close> is \<open>unknown\<close>); the home values, \<open>gestures\<close> and \<open>word\<close> have
  member initialisers. \<open>whichArm\<close> and the three accumulators \<open>max_roll\<close>, \<open>max_yaw\<close>,
  \<open>max_pitch\<close> have neither: they start with whatever the memory holds, a number, an
  infinity or NaN, so they are parameters here.
\<close>

definition new_DataCollector :: "Arm \<Rightarrow> float \<Rightarrow> float \<Rightarrow> float \<Rightarrow> DataCollector" where
  "new_DataCollector arm mr my mp =
     \<lparr> onArm = False, whichArm = arm, isUnlocked = False,
       roll_w = 0, pitch_w = 0, yaw_w = 0, currentPose = unknown,
       home_roll = - 1, home_yaw = - 1, home_pitch = - 1,
       max_roll = mr, max_yaw = my, max_pitch = mp,
       gestures = '''', word = '''', cout = [] \<rparr>"

subsection \<open>The event handlers\<close>

definition onUnpair :: "DataCollector \<Rightarrow> DataCollector" where
  "onUnpair s = s\<lparr>roll_w := 0, pitch_w := 0, yaw_w := 0, onArm := False, isUnlocked := False\<rparr>"

definition onOrientationData :: "Quaternion \<Rightarrow> DataCollector \<Rightarrow> DataCollector" where
  "onOrientationData quat s =
     (let roll = atan2 (2 * (qw quat * qx quat + qy quat * qz quat))
                       (1 - 2 * (qx quat * qx quat + qy quat * qy quat));
          pitch = arcsin (max (- 1) (min 1 (2 * (qw quat * qy quat - qz quat * qx quat))));
          yaw = atan2 (2 * (qw quat * qz quat + qx quat * qy quat))
                      (1 - 2 * (qy quat * qy quat + qz quat * qz quat))
      in s\<lparr>roll_w := (roll + pi) / (pi * 2) * 18,
           pitch_w := (pitch + pi / 2) / pi * 18,
           yaw_w := (yaw + pi) / (pi * 2) * 18\<rparr>)"

text \<open>The calls \<open>onPose\<close> and \<open>onLock\<close> make on the device change no member.\<close>

definition onPose :: "Pose \<Rightarrow> DataCollector \<Rightarrow> DataCollector" where
  "onPose pose s = s\<lparr>currentPose := pose\<rparr>"

definition onArmSync :: "Arm \<Rightarrow> DataCollector \<Rightarrow> DataCollector" where
  "onArmSync arm s = s\<lparr>onArm := True, whichArm := arm\<rparr>"

definition onArmUnsync :: "DataCollector \<Rightarrow> DataCollector" where
  "onArmUnsync s = s\<lparr>onArm := False\<rparr>"

definition onUnlock :: "DataCollector \<Rightarrow> DataCollector" where
  "onUnlock s = s\<lparr>isUnlocked := True\<rparr>"

definition onLock :: "DataCollector \<Rightarrow> DataCollector" where
  "onLock s = s\<lparr>isUnlocked := False\<rparr>"

subsection \<open>The letter table\<close>

text \<open>
  \<open>matchLetterToGesture\<close> fills a \<open>std::map\<close> by twelve assignments, in this order, and
  returns \<open>letterMap[gesture]\<close>; for an absent key \<open>operator[]\<close> inserts and returns the
  empty string.
\<close>

definition letterMap :: "string \<rightharpoonup> string" where
  "letterMap =
     Map.empty('''' \<mapsto> '' '', ''pitchyawpitch'' \<mapsto> ''a'', ''rollpitch'' \<mapsto> ''b'',
       ''roll'' \<mapsto> ''c'', ''rollpitch'' \<mapsto> ''d'', ''rollpitchyaw'' \<mapsto> ''e'',
       ''pitchpitchyaw'' \<mapsto> ''f'', ''rollpitchyaw'' \<mapsto> ''g'', ''pitchroll'' \<mapsto> ''h'',
       ''yawpitchyaw'' \<mapsto> ''i'', ''yawpitchroll'' \<mapsto> ''j'', ''pitchyawyaw'' \<mapsto> ''k'')"

definition matchLetterToGesture :: "string \<Rightarrow> string" where
  "matchLetterToGesture gesture =
     (case letterMap gesture of Some letter \<Rightarrow> letter | None \<Rightarrow> '''')"

subsection \<open>The display and tracking step\<close>

text \<open>
  The three parameters of \<open>epsilonCompare\<close> are floats; \<open>var1 - err\<close> and \<open>var1 + err\<close>
  are float operations.
\<close>

definition epsilonCompare :: "real \<Rightarrow> real \<Rightarrow> real \<Rightarrow> bool" where
  "epsilonCompare var1 var2 err =
     (\<not> (Finite var2 < fsub var1 err \<or> Finite var2 > fadd var1 err))"

text \<open>
  \<open>say\<close> appends to what has been written so far; \<open>cooldown\<close> is the loop
  \<open>while (time(NULL) - curr_time < 2);\<close>, which only waits.
\<close>

definition say :: "effect list \<Rightarrow> DataCollector \<Rightarrow> DataCollector" where
  "say es s = s\<lparr>cout := cout s @ es\<rparr>"

definition cooldown :: "DataCollector \<Rightarrow> DataCollector" where
  "cooldown s = s"

text \<open>
  One bar of the display: \<open>'[' << std::string(v, '*') << std::string(18 - v, ' ') << ']'\<close>;
  the conversion of the float to a length drops the fraction. The display values lie
  between 0 and 18 (\<open>onOrientationData_range\<close> below), so neither length is negative.
\<close>

definition gauge :: "real \<Rightarrow> effect list" where
  "gauge v =
     [CoutChar CHR ''['', CoutString (replicate (nat \<lfloor>v\<rfloor>) CHR ''*''),
      CoutString (replicate (nat \<lfloor>18 - v\<rfloor>) CHR '' ''), CoutChar CHR '']'']"

text \<open>The branch of \<open>print\<close> for the pose fist.\<close>

definition print_fist :: "DataCollector \<Rightarrow> DataCollector" where
  "print_fist s0 =
     (let s = say [CoutLiteral ''fist\<newline>''] s0;
          s = s\<lparr>home_roll := roll_w s\<rparr>;
          s = s\<lparr>home_yaw := yaw_w s\<rparr>;
          s = s\<lparr>home_pitch := pitch_w s\<rparr>;
          s = cooldown s;
          letter = matchLetterToGesture (gestures s);
          s = say [CoutString letter, Endl] s;
          s = s\<lparr>gestures := ''''\<rparr>;
          s = s\<lparr>word := word s @ letter\<rparr>
      in say [CoutString (word s), Endl] s)"

text \<open>
  The test of the last branch of \<open>print\<close>, and the block it guards. The literal 0.7 is a
  double; passing it for the float parameter \<open>err\<close> rounds it to binary32
  (\<open>rnd32_seven_tenths\<close> below gives the value).
\<close>

definition at_home :: "DataCollector \<Rightarrow> bool" where
  "at_home s =
     (epsilonCompare (roll_w s) (home_roll s) (rnd32 0.7) \<and>
      epsilonCompare (pitch_w s) (home_pitch s) (rnd32 0.7) \<and>
      epsilonCompare (yaw_w s) (home_yaw s) (rnd32 0.7))"

definition print_home_reached :: "DataCollector \<Rightarrow> DataCollector" where
  "print_home_reached s0 =
     (let s = say [CoutLiteral ''home reached\<newline>''] s0;
          s = say [CoutFloat (max_roll s), Endl] s;
          s = say [CoutFloat (max_pitch s), Endl] s;
          s = say [CoutFloat (max_yaw s), Endl] s;
          s = (if max_yaw s > max_roll s \<and> max_yaw s > max_pitch s
               then (say [CoutLiteral ''yaw\<newline>''] s)\<lparr>gestures := gestures s @ ''yaw''\<rparr>
               else s);
          s = (if max_roll s > max_yaw s \<and> max_roll s > max_pitch s
               then (say [CoutLiteral ''roll\<newline>''] s)\<lparr>gestures := gestures s @ ''roll''\<rparr>
               else s);
          s = (if max_pitch s > max_roll s \<and> max_pitch s > max_yaw s
               then (say [CoutLiteral ''pitch\<newline>''] s)\<lparr>gestures := gestures s @ ''pitch''\<rparr>
               else s);
          s = cooldown s;
          s = s\<lparr>max_roll := Finite 0\<rparr>;
          s = s\<lparr>max_yaw := Finite 0\<rparr>
      in s\<lparr>max_pitch := Finite 0\<rparr>)"

text \<open>
  The three statements that raise an accumulator to the current deviation from home:
  \<open>abs(roll_w - home_roll)\<close> is the absolute value of a float subtraction, and the
  comparison with an accumulator that holds NaN is false.
\<close>

definition observe_roll :: "DataCollector \<Rightarrow> DataCollector" where
  "observe_roll s =
     (if fabs (fsub (roll_w s) (home_roll s)) > max_roll s
      then s\<lparr>max_roll := fabs (fsub (roll_w s) (home_roll s))\<rparr> else s)"

definition observe_yaw :: "DataCollector \<Rightarrow> DataCollector" where
  "observe_yaw s =
     (if fabs (fsub (yaw_w s) (home_yaw s)) > max_yaw s \<and>
         fabs (fsub (yaw_w s) (home_yaw s)) \<noteq> Finite 17
      then s\<lparr>max_yaw := fabs (fsub (yaw_w s) (home_yaw s))\<rparr> else s)"

definition observe_pitch :: "DataCollector \<Rightarrow> DataCollector" where
  "observe_pitch s =
     (if fabs (fsub (pitch_w s) (home_pitch s)) > max_pitch s
      then s\<lparr>max_pitch := fabs (fsub (pitch_w s) (home_pitch s))\<rparr> else s)"

text \<open>
  The last branch of \<open>print\<close>, for every pose but fist, fingersSpread and waveOut: the
  home-reached block under its test, then the three statements above, which are not
  under an \<open>else\<close> and run in either case.
\<close>

definition print_track :: "DataCollector \<Rightarrow> DataCollector" where
  "print_track s0 =
     (let s = (if at_home s0 then print_home_reached s0 else s0);
          s = observe_roll s;
          s = observe_yaw s
      in observe_pitch s)"

text \<open>
  \<open>print\<close> itself. The pose field is padded to 14 characters; the longest pose name,
  fingersSpread, has 13, so \<open>14 - poseString.size()\<close> does not wrap around.
\<close>

definition print :: "DataCollector \<Rightarrow> DataCollector" where
  "print s0 =
     (let s = say [CoutChar (CHR 0x0D)] s0;
          s = say (gauge (roll_w s) @ gauge (pitch_w s) @ gauge (yaw_w s)) s;
          s = (if onArm s then
                 (let poseString = toString (currentPose s);
                      s = say [CoutChar CHR ''['',
                               CoutLiteral (if isUnlocked s then ''unlocked'' else ''locked  ''),
                               CoutChar CHR '']'', CoutChar CHR ''['',
                               CoutLiteral (if whichArm s = armLeft then ''L'' else ''R''),
                               CoutChar CHR '']'', CoutChar CHR ''['', CoutString poseString,
                               CoutString (replicate (14 - length poseString) CHR '' ''),
                               CoutChar CHR '']''] s
                  in if poseString = ''fist'' then print_fist s
                     else if poseString = ''fingersSpread''
                       then say [SystemCall (''python testgrid.py '' @ word s)] s
                     else if poseString = ''waveOut''
                       then say [SystemCall (''python testtwil.py '' @ word s)] s
                     else print_track s)
               else say [CoutChar CHR ''['', CoutString (replicate 8 CHR '' ''),
                         CoutChar CHR '']'', CoutLiteral ''[?]'', CoutChar CHR ''['',
                         CoutString (replicate 14 CHR '' ''), CoutChar CHR '']''] s)
      in say [Flush] s)"

subsection \<open>The calls of the main loop\<close>

text \<open>
  Each iteration of the loop in \<open>main\<close> lets the hub deliver the pending events to the
  handlers and then calls \<open>print\<close>. A run of the program is a list of such calls.
\<close>

datatype call =
    OnUnpair | OnOrientationData Quaternion | OnPose Pose | OnArmSync Arm
  | OnArmUnsync | OnUnlock | OnLock | Print

fun perform :: "call \<Rightarrow> DataCollector \<Rightarrow> DataCollector" where
  "perform OnUnpair s = onUnpair s"
| "perform (OnOrientationData quat) s = onOrientationData quat s"
| "perform (OnPose pose) s = onPose pose s"
| "perform (OnArmSync arm) s = onArmSync arm s"
| "perform OnArmUnsync s = onArmUnsync s"
| "perform OnUnlock s = onUnlock s"
| "perform OnLock s = onLock s"
| "perform Print s = print s"

fun run :: "call list \<Rightarrow> DataCollector \<Rightarrow> DataCollector" where
  "run [] s = s"
| "run (c # cs) s = run cs (perform c s)"

text \<open>What one call of \<open>print\<close> writes, and whether it reports that home is reached.\<close>

definition printed :: "DataCollector \<Rightarrow> effect list" where
  "printed s = drop (length (cout s)) (cout (print s))"

definition fires :: "DataCollector \<Rightarrow> bool" where
  "fires s = (CoutLiteral ''home reached\<newline>'' \<in> set (printed s))"

text \<open>
  The label the three tests of the home-reached block append: each test asks whether one
  accumulator exceeds both others, so at most one of them succeeds.
\<close>

definition label :: "DataCollector \<Rightarrow> string" where
  "label s =
     (if max_yaw s > max_roll s \<and> max_yaw s > max_pitch s then ''yaw''
      else if max_roll s > max_yaw s \<and> max_roll s > max_pitch s then ''roll''
      else if max_pitch s > max_roll s \<and> max_pitch s > max_yaw s then ''pitch''
      else '''')"

text \<open>The calls in which the last branch of \<open>print\<close> runs.\<close>

definition tracking :: "DataCollector \<Rightarrow> bool" where
  "tracking s =
     (onArm s \<and> currentPose s \<noteq> fist \<and> currentPose s \<noteq> fingersSpread \<and>
      currentPose s \<noteq> waveOut)"

text \<open>
  Whether some call of \<open>print\<close> in a run took the fist branch, the only place where the
  home values are assigned.
\<close>

fun fist_printed :: "call list \<Rightarrow> DataCollector \<Rightarrow> bool" where
  "fist_printed [] s = False"
| "fist_printed (c # cs) s =
     ((c = Print \<and> onArm s \<and> currentPose s = fist) \<or> fist_printed cs (perform c s))"

section \<open>Binary32 arithmetic\<close>

lemma float_less_asym: "x < y \<Longrightarrow> \<not> y < (x::float)"
  by (cases x; cases y) simp_all

lemma float_less_irrefl [simp]: "\<not> x < (x::float)"
  by (cases x) simp_all

lemma round_even_err: "\<bar>of_int (round_even y) - y\<bar> \<le> 1 / 2"
  unfolding round_even_def Let_def by (simp; linarith)

lemma round_even_int [simp]: "round_even (of_int n) = n"
  by (simp add: round_even_def)

lemma rnd32_zero [simp]: "rnd32 0 = 0"
  by (simp add: rnd32_def)

lemma rnd32_err: "\<bar>rnd32 x - x\<bar> \<le> \<bar>x\<bar> / 2 ^ 24 + 2 powr (- 150)"
proof (cases "x = 0")
  case True
  then show ?thesis by simp
next
  case False
  define e where "e = max \<lfloor>log 2 \<bar>x\<bar>\<rfloor> (- 126)"
  define u :: real where "u = 2 powr (of_int e - 23)"
  have u: "0 < u" by (simp add: u_def)
  have r: "rnd32 x = of_int (round_even (x / u)) * u"
    using False by (simp add: rnd32_def e_def u_def Let_def)
  have "\<bar>rnd32 x - x\<bar> = \<bar>of_int (round_even (x / u)) - x / u\<bar> * u"
  proof -
    have "rnd32 x - x = (of_int (round_even (x / u)) - x / u) * u"
      using u by (simp add: r field_simps)
    then show ?thesis using u by (simp add: abs_mult)
  qed
  also have "\<dots> \<le> 1 / 2 * u"
    using round_even_err [of "x / u"] u by (intro mult_right_mono) simp_all
  finally have h: "\<bar>rnd32 x - x\<bar> \<le> u / 2" by simp
  have "u / 2 \<le> \<bar>x\<bar> / 2 ^ 24 + 2 powr (- 150)"
  proof (cases "- 126 \<le> \<lfloor>log 2 \<bar>x\<bar>\<rfloor>")
    case True
    then have e: "e = \<lfloor>log 2 \<bar>x\<bar>\<rfloor>" by (simp add: e_def)
    have "of_int e \<le> log 2 \<bar>x\<bar>" by (simp add: e)
    then have "2 powr of_int e \<le> 2 powr log 2 \<bar>x\<bar>" by simp
    also have "\<dots> = \<bar>x\<bar>" using False by simp
    finally have le: "2 powr of_int e \<le> \<bar>x\<bar>" .
    have "u = 2 powr of_int e / 2 ^ 23"
      by (simp add: u_def powr_diff)
    then have "u / 2 = 2 powr of_int e / 2 ^ 24" by simp
    also have "\<dots> \<le> \<bar>x\<bar> / 2 ^ 24" using le by (simp add: divide_right_mono)
    finally show ?thesis by (simp add: add_increasing2)
  next
    case False
    then have e: "e = - 126" by (simp add: e_def)
    have "u = 2 powr (- 149)" by (simp add: u_def e)
    then have "u / 2 = 2 powr (- 150)" by (simp add: powr_minus_divide)
    then show ?thesis by (simp add: add_increasing)
  qed
  with h show ?thesis by linarith
qed

lemma rnd32_near:
  assumes "\<bar>x\<bar> \<le> 32"
  shows "\<bar>rnd32 x - x\<bar> \<le> 1 / 400000"
proof -
  have "(2::real) powr (- 150) \<le> 2 powr (- 24)" by (rule powr_mono) simp_all
  also have "\<dots> = 1 / 2 ^ 24" by (simp add: powr_minus_divide)
  finally have t: "(2::real) powr (- 150) \<le> 1 / 2 ^ 24" .
  from assms have "\<bar>x\<bar> / 2 ^ 24 \<le> 32 / 2 ^ 24" by (simp add: divide_right_mono)
  with rnd32_err [of x] t have "\<bar>rnd32 x - x\<bar> \<le> 32 / 2 ^ 24 + 1 / 2 ^ 24" by linarith
  then show ?thesis by simp
qed

lemma to_float_near:
  assumes "\<bar>x\<bar> \<le> 32"
  shows "to_float x = Finite (rnd32 x)"
proof -
  from rnd32_near [OF assms] assms have "\<bar>rnd32 x\<bar> \<le> 33" by linarith
  moreover have "(33::real) < 2 ^ 128" by simp
  ultimately have "\<not> 2 ^ 128 \<le> \<bar>rnd32 x\<bar>" by linarith
  then show ?thesis by (simp add: to_float_def Let_def)
qed

lemma rnd32_binade:
  assumes "2 powr of_int k \<le> \<bar>x\<bar>" and "\<bar>x\<bar> < 2 powr (of_int k + 1)" and "- 126 \<le> k"
  shows "rnd32 x = of_int (round_even (x / 2 powr (of_int k - 23))) * 2 powr (of_int k - 23)"
proof -
  have "0 < 2 powr real_of_int k" by simp
  with assms(1) have "0 < \<bar>x\<bar>" by linarith
  then have x: "x \<noteq> 0" by simp
  from \<open>0 < \<bar>x\<bar>\<close> assms(1,2) have "\<lfloor>log 2 \<bar>x\<bar>\<rfloor> = k"
    by (simp add: floor_log_eq_powr_iff)
  with assms(3) have "max \<lfloor>log 2 \<bar>x\<bar>\<rfloor> (- 126) = k" by simp
  then show ?thesis
    using x by (simp add: rnd32_def Let_def)
qed

lemma rnd32_exact:
  assumes "2 powr of_int k \<le> \<bar>x\<bar>" and "\<bar>x\<bar> < 2 powr (of_int k + 1)" and "- 126 \<le> k"
    and "x / 2 powr (of_int k - 23) = of_int n"
  shows "rnd32 x = x"
proof -
  define u :: real where "u = 2 powr (of_int k - 23)"
  have u: "0 < u" by (simp add: u_def)
  from assms(4) have n: "x / u = of_int n" by (simp add: u_def)
  with u have xn: "x = of_int n * u" by (simp add: field_simps)
  have "rnd32 x = of_int (round_even (x / u)) * u"
    unfolding u_def using assms(1-3) by (rule rnd32_binade)
  also have "\<dots> = of_int n * u" by (simp only: n round_even_int)
  finally show ?thesis using xn by simp
qed

lemma rnd32_17 [simp]: "rnd32 17 = 17"
  by (rule rnd32_exact [of 4 _ 8912896]) (simp_all add: powr_minus_divide)

lemma rnd32_9 [simp]: "rnd32 9 = 9"
  by (rule rnd32_exact [of 3 _ 9437184]) (simp_all add: powr_minus_divide)

lemma rnd32_3 [simp]: "rnd32 3 = 3"
  by (rule rnd32_exact [of 1 _ 12582912]) (simp_all add: powr_minus_divide)

lemma rnd32_half [simp]: "rnd32 (1 / 2) = 1 / 2"
  by (rule rnd32_exact [of "- 1" _ 8388608]) (simp_all add: powr_minus_divide)

lemma rnd32_quarter [simp]: "rnd32 (1 / 4) = 1 / 4"
  by (rule rnd32_exact [of "- 2" _ 8388608]) (simp_all add: powr_minus_divide)

lemma rnd32_seven_tenths: "rnd32 (7 / 10) = 11744051 / 16777216"
proof -
  have "\<lfloor>log 2 \<bar>7 / 10 :: real\<bar>\<rfloor> = - 1"
    by (simp add: floor_log_eq_powr_iff powr_minus_divide)
  then have "rnd32 (7 / 10) = of_int (round_even (7 / 10 / 2 powr (- 24))) * 2 powr (- 24)"
    by (simp add: rnd32_def Let_def)
  moreover have "(7 / 10 / 2 powr (- 24) :: real) = 117440512 / 10"
    by (simp add: powr_minus_divide)
  moreover have "round_even (117440512 / 10) = 11744051"
    by (simp add: round_even_def Let_def)
  ultimately show ?thesis by (simp add: powr_minus_divide)
qed


lemma to_float_zero [simp]: "to_float 0 = Finite 0"
  by (simp add: to_float_def)

text \<open>The tolerance test, away from its boundary, for values of the size of the display.\<close>

lemma seven_tenths_bounds: "6999 / 10000 < rnd32 (7 / 10) \<and> rnd32 (7 / 10) < 7 / 10"
  by (simp add: rnd32_seven_tenths)

lemma epsilonCompare_near:
  assumes "\<bar>a\<bar> \<le> 30" and "\<bar>a - b\<bar> \<le> 69 / 100"
  shows "epsilonCompare a b (rnd32 (7 / 10))"
proof -
  let ?e = "rnd32 (7 / 10)"
  from assms(1) seven_tenths_bounds have m: "\<bar>a - ?e\<bar> \<le> 32" and p: "\<bar>a + ?e\<bar> \<le> 32"
    by linarith+
  have "rnd32 (a - ?e) \<le> b"
    using rnd32_near [OF m] assms(2) seven_tenths_bounds by linarith
  moreover have "b \<le> rnd32 (a + ?e)"
    using rnd32_near [OF p] assms(2) seven_tenths_bounds by linarith
  ultimately show ?thesis
    by (simp add: epsilonCompare_def fsub_def fadd_def to_float_near [OF m] to_float_near [OF p])
qed

lemma epsilonCompare_far:
  assumes "\<bar>a\<bar> \<le> 30" and "71 / 100 \<le> \<bar>a - b\<bar>"
  shows "\<not> epsilonCompare a b (rnd32 (7 / 10))"
proof -
  let ?e = "rnd32 (7 / 10)"
  from assms(1) seven_tenths_bounds have m: "\<bar>a - ?e\<bar> \<le> 32" and p: "\<bar>a + ?e\<bar> \<le> 32"
    by linarith+
  have "b < rnd32 (a - ?e) \<or> rnd32 (a + ?e) < b"
    using rnd32_near [OF m] rnd32_near [OF p] assms(2) seven_tenths_bounds by linarith
  then show ?thesis
    by (simp add: epsilonCompare_def fsub_def fadd_def to_float_near [OF m] to_float_near [OF p])
qed

lemma epsilonCompare_close:
  assumes "\<bar>a\<bar> \<le> 30" and "epsilonCompare a b (rnd32 (7 / 10))"
  shows "\<bar>a - b\<bar> < 71 / 100"
  using epsilonCompare_far [OF assms(1), of b] assms(2) by linarith

lemma fabs_fsub_close:
  assumes "\<bar>a - b\<bar> < 71 / 100"
  shows "fabs (fsub a b) \<noteq> Finite 17"
proof -
  from assms have m: "\<bar>a - b\<bar> \<le> 32" by linarith
  from rnd32_near [OF m] assms have "\<bar>rnd32 (a - b)\<bar> < 17" by linarith
  then show ?thesis
    by (simp add: fsub_def to_float_near [OF m])
qed

lemma fsub_eval: "\<bar>a - b\<bar> \<le> 32 \<Longrightarrow> fsub a b = Finite (rnd32 (a - b))"
  by (simp add: fsub_def to_float_near)

text \<open>
  At its boundary the tolerance test is not the comparison of the exact deviation with
  0.7, and the test against 17 sees the rounded difference. Three pairs of floats:
  0.75 and the float nearest 0.05 deviate by less than 0.7 and fail the test; 2 and the
  float nearest 2.7 deviate by more than 0.7 and pass it; the floats nearest 17.1 and 0.1
  do not differ by 17, and their float difference is 17.
\<close>

lemma rnd32_below: "rnd32 (838861 / 16777216) = 838861 / 16777216"
  by (rule rnd32_exact [of "- 5" _ 13421776]) (simp_all add: powr_minus_divide)

lemma tolerance_below:
  "\<bar>3 / 4 - 13421773 / 268435456 :: real\<bar> < 7 / 10 \<and>
   \<not> epsilonCompare (3 / 4) (13421773 / 268435456) (rnd32 (7 / 10))"
  by (simp add: epsilonCompare_def fsub_def fadd_def to_float_near rnd32_seven_tenths
      rnd32_below)

lemma rnd32_above: "rnd32 (45298483 / 16777216) = 11324621 / 4194304"
proof -
  have "rnd32 (45298483 / 16777216) =
      of_int (round_even (45298483 / 16777216 / 2 powr (of_int 1 - 23))) * 2 powr (of_int 1 - 23)"
    by (rule rnd32_binade) simp_all
  moreover have "(45298483 / 16777216 / 2 powr (of_int 1 - 23) :: real) = 45298483 / 4"
    by (simp add: powr_minus_divide)
  moreover have "round_even (45298483 / 4) = 11324621"
    by (simp add: round_even_def Let_def)
  ultimately show ?thesis by (simp add: powr_minus_divide)
qed

lemma tolerance_above:
  "7 / 10 < \<bar>2 - 11324621 / 4194304 :: real\<bar> \<and>
   epsilonCompare 2 (11324621 / 4194304) (rnd32 (7 / 10))"
proof -
  have m: "\<bar>2 - 11744051 / 16777216 :: real\<bar> \<le> 32" by simp
  have "rnd32 (2 - 11744051 / 16777216) \<le> 11324621 / 4194304"
    using rnd32_near [OF m] by linarith
  then show ?thesis
    by (simp add: epsilonCompare_def fsub_def fadd_def to_float_near rnd32_seven_tenths
        rnd32_above not_less)
qed

lemma rnd32_seventeen: "rnd32 (2281701427 / 134217728) = 17"
proof -
  have "rnd32 (2281701427 / 134217728) =
      of_int (round_even (2281701427 / 134217728 / 2 powr (of_int 4 - 23))) * 2 powr (of_int 4 - 23)"
    by (rule rnd32_binade) simp_all
  moreover have "(2281701427 / 134217728 / 2 powr (of_int 4 - 23) :: real) = 2281701427 / 256"
    by (simp add: powr_minus_divide)
  moreover have "round_even (2281701427 / 256) = 8912896"
    by (simp add: round_even_def Let_def)
  ultimately show ?thesis by (simp add: powr_minus_divide)
qed

lemma seventeen_rounded:
  "(8965325 / 524288 - 13421773 / 134217728 :: real) \<noteq> 17 \<and>
   fabs (fsub (8965325 / 524288) (13421773 / 134217728)) = Finite 17"
  by (simp add: fsub_eval rnd32_seventeen)

text \<open>
  The absolute value of a float difference is a non-negative number or the positive
  infinity, so after the reset to zero the accumulator statement stores it or leaves the
  zero that equals it.
\<close>

lemma fabs_to_float_zero:
  "\<not> Finite 0 < fabs (to_float x) \<Longrightarrow> fabs (to_float x) = Finite 0"
  by (simp add: to_float_def Let_def split: if_splits)

section \<open>What each block of \<open>print\<close> does to the members\<close>

lemma say_fields [simp]:
  "onArm (say es s) = onArm s" "whichArm (say es s) = whichArm s"
  "isUnlocked (say es s) = isUnlocked s"
  "roll_w (say es s) = roll_w s" "pitch_w (say es s) = pitch_w s" "yaw_w (say es s) = yaw_w s"
  "currentPose (say es s) = currentPose s"
  "home_roll (say es s) = home_roll s" "home_yaw (say es s) = home_yaw s"
  "home_pitch (say es s) = home_pitch s"
  "max_roll (say es s) = max_roll s" "max_yaw (say es s) = max_yaw s"
  "max_pitch (say es s) = max_pitch s"
  "gestures (say es s) = gestures s" "word (say es s) = word s"
  "cout (say es s) = cout s @ es"
  by (simp_all add: say_def)

lemma accumulators_exclusive:
  "\<not> (max_roll s < max_yaw s \<and> max_yaw s < max_roll s)"
  "\<not> (max_pitch s < max_yaw s \<and> max_yaw s < max_pitch s)"
  "\<not> (max_roll s < max_pitch s \<and> max_pitch s < max_roll s)"
  using float_less_asym by blast+

lemma print_home_reached_gestures:
  "gestures (print_home_reached s) = gestures s @ label s"
  using accumulators_exclusive [of s]
  by (auto simp add: print_home_reached_def Let_def cooldown_def label_def)

lemma print_home_reached_max:
  "max_roll (print_home_reached s) = Finite 0" "max_yaw (print_home_reached s) = Finite 0"
  "max_pitch (print_home_reached s) = Finite 0"
  by (simp_all add: print_home_reached_def Let_def cooldown_def)

lemma print_home_reached_frame:
  "onArm (print_home_reached s) = onArm s" "whichArm (print_home_reached s) = whichArm s"
  "isUnlocked (print_home_reached s) = isUnlocked s"
  "roll_w (print_home_reached s) = roll_w s" "pitch_w (print_home_reached s) = pitch_w s"
  "yaw_w (print_home_reached s) = yaw_w s"
  "currentPose (print_home_reached s) = currentPose s"
  "home_roll (print_home_reached s) = home_roll s" "home_yaw (print_home_reached s) = home_yaw s"
  "home_pitch (print_home_reached s) = home_pitch s"
  "word (print_home_reached s) = word s"
  by (simp_all add: print_home_reached_def Let_def cooldown_def)

lemma print_home_reached_cout:
  "cout (print_home_reached s) =
     cout s @ [CoutLiteral ''home reached\<newline>'', CoutFloat (max_roll s), Endl,
       CoutFloat (max_pitch s), Endl, CoutFloat (max_yaw s), Endl] @
       (if label s = '''' then [] else [CoutLiteral (label s @ ''\<newline>'')])"
  using accumulators_exclusive [of s]
  by (auto simp add: print_home_reached_def Let_def cooldown_def label_def)

lemma observe_roll_fields [simp]:
  "onArm (observe_roll s) = onArm s" "whichArm (observe_roll s) = whichArm s"
  "isUnlocked (observe_roll s) = isUnlocked s"
  "roll_w (observe_roll s) = roll_w s" "pitch_w (observe_roll s) = pitch_w s"
  "yaw_w (observe_roll s) = yaw_w s" "currentPose (observe_roll s) = currentPose s"
  "home_roll (observe_roll s) = home_roll s" "home_yaw (observe_roll s) = home_yaw s"
  "home_pitch (observe_roll s) = home_pitch s"
  "max_yaw (observe_roll s) = max_yaw s" "max_pitch (observe_roll s) = max_pitch s"
  "gestures (observe_roll s) = gestures s" "word (observe_roll s) = word s"
  "cout (observe_roll s) = cout s"
  "max_roll (observe_roll s) =
     (if fabs (fsub (roll_w s) (home_roll s)) > max_roll s
      then fabs (fsub (roll_w s) (home_roll s)) else max_roll s)"
  by (simp_all add: observe_roll_def)

lemma observe_yaw_fields [simp]:
  "onArm (observe_yaw s) = onArm s" "whichArm (observe_yaw s) = whichArm s"
  "isUnlocked (observe_yaw s) = isUnlocked s"
  "roll_w (observe_yaw s) = roll_w s" "pitch_w (observe_yaw s) = pitch_w s"
  "yaw_w (observe_yaw s) = yaw_w s" "currentPose (observe_yaw s) = currentPose s"
  "home_roll (observe_yaw s) = home_roll s" "home_yaw (observe_yaw s) = home_yaw s"
  "home_pitch (observe_yaw s) = home_pitch s"
  "max_roll (observe_yaw s) = max_roll s" "max_pitch (observe_yaw s) = max_pitch s"
  "gestures (observe_yaw s) = gestures s" "word (observe_yaw s) = word s"
  "cout (observe_yaw s) = cout s"
  "max_yaw (observe_yaw s) =
     (if fabs (fsub (yaw_w s) (home_yaw s)) > max_yaw s \<and>
         fabs (fsub (yaw_w s) (home_yaw s)) \<noteq> Finite 17
      then fabs (fsub (yaw_w s) (home_yaw s)) else max_yaw s)"
  by (simp_all add: observe_yaw_def)

lemma observe_pitch_fields [simp]:
  "onArm (observe_pitch s) = onArm s" "whichArm (observe_pitch s) = whichArm s"
  "isUnlocked (observe_pitch s) = isUnlocked s"
  "roll_w (observe_pitch s) = roll_w s" "pitch_w (observe_pitch s) = pitch_w s"
  "yaw_w (observe_pitch s) = yaw_w s" "currentPose (observe_pitch s) = currentPose s"
  "home_roll (observe_pitch s) = home_roll s" "home_yaw (observe_pitch s) = home_yaw s"
  "home_pitch (observe_pitch s) = home_pitch s"
  "max_roll (observe_pitch s) = max_roll s" "max_yaw (observe_pitch s) = max_yaw s"
  "gestures (observe_pitch s) = gestures s" "word (observe_pitch s) = word s"
  "cout (observe_pitch s) = cout s"
  "max_pitch (observe_pitch s) =
     (if fabs (fsub (pitch_w s) (home_pitch s)) > max_pitch s
      then fabs (fsub (pitch_w s) (home_pitch s)) else max_pitch s)"
  by (simp_all add: observe_pitch_def)

lemma print_track_frame:
  "onArm (print_track s) = onArm s" "whichArm (print_track s) = whichArm s"
  "isUnlocked (print_track s) = isUnlocked s"
  "roll_w (print_track s) = roll_w s" "pitch_w (print_track s) = pitch_w s"
  "yaw_w (print_track s) = yaw_w s"
  "currentPose (print_track s) = currentPose s"
  "home_roll (print_track s) = home_roll s" "home_yaw (print_track s) = home_yaw s"
  "home_pitch (print_track s) = home_pitch s"
  "word (print_track s) = word s"
  by (simp_all add: print_track_def print_home_reached_frame)

lemma print_track_gestures:
  "gestures (print_track s) = (if at_home s then gestures s @ label s else gestures s)"
  by (simp add: print_track_def print_home_reached_gestures)

lemma print_track_cout:
  "cout (print_track s) = (if at_home s then cout (print_home_reached s) else cout s)"
  by (simp add: print_track_def)

lemma print_track_max_home:
  assumes "at_home s"
  shows "max_roll (print_track s) = fabs (fsub (roll_w s) (home_roll s))"
    and "max_yaw (print_track s) =
           (if fabs (fsub (yaw_w s) (home_yaw s)) = Finite 17 then Finite 0
            else fabs (fsub (yaw_w s) (home_yaw s)))"
    and "max_pitch (print_track s) = fabs (fsub (pitch_w s) (home_pitch s))"
  using assms
  by (auto simp add: print_track_def print_home_reached_frame print_home_reached_max
      fsub_def dest: fabs_to_float_zero)

lemma print_track_max_away:
  assumes "\<not> at_home s"
  shows "max_roll (print_track s) =
           (if fabs (fsub (roll_w s) (home_roll s)) > max_roll s
            then fabs (fsub (roll_w s) (home_roll s)) else max_roll s)"
    and "max_yaw (print_track s) =
           (if fabs (fsub (yaw_w s) (home_yaw s)) > max_yaw s \<and>
               fabs (fsub (yaw_w s) (home_yaw s)) \<noteq> Finite 17
            then fabs (fsub (yaw_w s) (home_yaw s)) else max_yaw s)"
    and "max_pitch (print_track s) =
           (if fabs (fsub (pitch_w s) (home_pitch s)) > max_pitch s
            then fabs (fsub (pitch_w s) (home_pitch s)) else max_pitch s)"
  using assms by (simp_all add: print_track_def)

lemma label_say [simp]: "label (say es s) = label s"
  by (simp add: label_def)

lemma toString_eq [simp]:
  "toString p = ''fist'' \<longleftrightarrow> p = fist"
  "toString p = ''fingersSpread'' \<longleftrightarrow> p = fingersSpread"
  "toString p = ''waveOut'' \<longleftrightarrow> p = waveOut"
  by (cases p; simp)+

lemma print_frame:
  "onArm (print s) = onArm s" "whichArm (print s) = whichArm s"
  "isUnlocked (print s) = isUnlocked s"
  "roll_w (print s) = roll_w s" "pitch_w (print s) = pitch_w s"
  "yaw_w (print s) = yaw_w s"
  "currentPose (print s) = currentPose s"
  by (simp_all add: print_def Let_def print_track_frame print_fist_def cooldown_def)

lemma print_home:
  "home_roll (print s) = (if onArm s \<and> currentPose s = fist then roll_w s else home_roll s)"
  "home_yaw (print s) = (if onArm s \<and> currentPose s = fist then yaw_w s else home_yaw s)"
  "home_pitch (print s) = (if onArm s \<and> currentPose s = fist then pitch_w s else home_pitch s)"
  by (simp_all add: print_def Let_def print_track_frame print_fist_def cooldown_def)

lemma print_word:
  "word (print s) =
     (if onArm s \<and> currentPose s = fist then word s @ matchLetterToGesture (gestures s)
      else word s)"
  by (simp add: print_def Let_def print_track_frame print_fist_def cooldown_def)

lemma print_gestures:
  "gestures (print s) =
     (if onArm s \<and> currentPose s = fist then ''''
      else if tracking s \<and> at_home s then gestures s @ label s
      else gestures s)"
  by (simp add: print_def Let_def print_track_gestures print_fist_def cooldown_def tracking_def
      at_home_def)

lemma gauge_quiet [simp]: "CoutLiteral x \<notin> set (gauge v)"
  by (simp add: gauge_def)

lemma label_neq [simp]: "label s @ ''\<newline>'' \<noteq> ''home reached\<newline>''"
  by (simp add: label_def)

lemma fires_iff: "fires s \<longleftrightarrow> tracking s \<and> at_home s"
  unfolding fires_def printed_def
  by (simp add: print_def Let_def print_fist_def cooldown_def print_track_cout
      print_home_reached_cout tracking_def at_home_def)

lemma at_home_say [simp]: "at_home (say es s) = at_home s"
  by (simp add: at_home_def)

lemma print_fist_max:
  "max_roll (print_fist s) = max_roll s" "max_yaw (print_fist s) = max_yaw s"
  "max_pitch (print_fist s) = max_pitch s"
  by (simp_all add: print_fist_def Let_def cooldown_def)

lemma print_max_roll:
  "max_roll (print s) =
     (if tracking s
      then (if at_home s then fabs (fsub (roll_w s) (home_roll s))
            else if fabs (fsub (roll_w s) (home_roll s)) > max_roll s
            then fabs (fsub (roll_w s) (home_roll s)) else max_roll s)
      else max_roll s)"
  by (simp add: print_def Let_def tracking_def print_fist_max print_track_max_home
      print_track_max_away)

lemma print_max_yaw:
  "max_yaw (print s) =
     (if tracking s
      then (if at_home s
            then (if fabs (fsub (yaw_w s) (home_yaw s)) = Finite 17 then Finite 0
                  else fabs (fsub (yaw_w s) (home_yaw s)))
            else if fabs (fsub (yaw_w s) (home_yaw s)) > max_yaw s \<and>
                    fabs (fsub (yaw_w s) (home_yaw s)) \<noteq> Finite 17
            then fabs (fsub (yaw_w s) (home_yaw s)) else max_yaw s)
      else max_yaw s)"
  by (simp add: print_def Let_def tracking_def print_fist_max print_track_max_home
      print_track_max_away)

lemma print_max_pitch:
  "max_pitch (print s) =
     (if tracking s
      then (if at_home s then fabs (fsub (pitch_w s) (home_pitch s))
            else if fabs (fsub (pitch_w s) (home_pitch s)) > max_pitch s
            then fabs (fsub (pitch_w s) (home_pitch s)) else max_pitch s)
      else max_pitch s)"
  by (simp add: print_def Let_def tracking_def print_fist_max print_track_max_home
      print_track_max_away)

section \<open>The letter table\<close>

lemma letterMap_dom:
  "dom letterMap = {'''', ''pitchyawpitch'', ''rollpitch'', ''roll'', ''rollpitchyaw'',
     ''pitchpitchyaw'', ''pitchroll'', ''yawpitchyaw'', ''yawpitchroll'', ''pitchyawyaw''}"
  unfolding letterMap_def by auto

section \<open>The orientation decoder\<close>

lemma atan2_bounds: "- pi < atan2 y x \<and> atan2 y x \<le> pi"
proof -
  have l: "- (pi / 2) < arctan (y / x)" by (rule arctan_lbound)
  have u: "arctan (y / x) < pi / 2" by (rule arctan_ubound)
  have neg: "arctan (y / x) \<le> 0" if "x < 0" "0 \<le> y"
  proof -
    from that have "y / x \<le> 0" by (simp add: divide_nonneg_neg)
    then show ?thesis by (simp only: arctan_le_zero_iff)
  qed
  have pos: "0 < arctan (y / x)" if "x < 0" "y < 0"
  proof -
    from that have "0 < y / x" by (simp add: divide_neg_neg)
    then show ?thesis by (simp only: zero_less_arctan_iff)
  qed
  consider "0 < x" | "x < 0" "0 \<le> y" | "x < 0" "y < 0" | "x = 0" "0 < y" | "x = 0" "y < 0"
    | "x = 0" "y = 0"
    by linarith
  then show ?thesis
  proof cases
    case 1
    then have "atan2 y x = arctan (y / x)" by (simp add: atan2_def)
    with l u pi_gt_zero show ?thesis by linarith
  next
    case 2
    then have "atan2 y x = arctan (y / x) + pi" by (simp add: atan2_def)
    with l neg [OF 2] pi_gt_zero show ?thesis by linarith
  next
    case 3
    then have "atan2 y x = arctan (y / x) - pi" by (simp add: atan2_def)
    with u pos [OF 3] pi_gt_zero show ?thesis by linarith
  next
    case 4
    then have "atan2 y x = pi / 2" by (simp add: atan2_def)
    with pi_gt_zero show ?thesis by linarith
  next
    case 5
    then have "atan2 y x = - (pi / 2)" by (simp add: atan2_def)
    with pi_gt_zero show ?thesis by linarith
  next
    case 6
    then have "atan2 y x = 0" by (simp add: atan2_def)
    with pi_gt_zero show ?thesis by linarith
  qed
qed

lemma scale_unit:
  fixes b c :: real
  assumes "0 \<le> b" and "b \<le> c" and "0 < c"
  shows "0 \<le> b / c * 18 \<and> b / c * 18 \<le> 18"
proof -
  define t where "t = b / c"
  from assms have "0 \<le> t" "t \<le> 1" by (simp_all add: t_def)
  then have "0 \<le> t * 18 \<and> t * 18 \<le> 18" by simp
  then show ?thesis by (simp only: t_def)
qed

lemma onOrientationData_range:
  "0 \<le> roll_w (onOrientationData quat s) \<and> roll_w (onOrientationData quat s) \<le> 18 \<and>
   0 \<le> pitch_w (onOrientationData quat s) \<and> pitch_w (onOrientationData quat s) \<le> 18 \<and>
   0 \<le> yaw_w (onOrientationData quat s) \<and> yaw_w (onOrientationData quat s) \<le> 18"
proof -
  have full: "0 \<le> (atan2 y x + pi) / (pi * 2) * 18 \<and> (atan2 y x + pi) / (pi * 2) * 18 \<le> 18"
    for y x
  proof (rule scale_unit)
    show "0 \<le> atan2 y x + pi" using atan2_bounds [of y x] by linarith
    show "atan2 y x + pi \<le> pi * 2" using atan2_bounds [of y x] by linarith
    show "0 < pi * 2" using pi_gt_zero by linarith
  qed
  have half: "0 \<le> (arcsin (max (- 1) (min 1 v)) + pi / 2) / pi * 18 \<and>
      (arcsin (max (- 1) (min 1 v)) + pi / 2) / pi * 18 \<le> 18" for v :: real
  proof (rule scale_unit)
    have c: "- 1 \<le> max (- 1) (min 1 v)" "max (- 1) (min 1 v) \<le> 1"
      by simp_all
    have b: "- (pi / 2) \<le> arcsin (max (- 1) (min 1 v)) \<and> arcsin (max (- 1) (min 1 v)) \<le> pi / 2"
      by (rule arcsin_bounded [OF c])
    from b show "0 \<le> arcsin (max (- 1) (min 1 v)) + pi / 2" by linarith
    from b show "arcsin (max (- 1) (min 1 v)) + pi / 2 \<le> pi" by linarith
    show "0 < pi" by (rule pi_gt_zero)
  qed
  have r: "roll_w (onOrientationData quat s) =
      (atan2 (2 * (qw quat * qx quat + qy quat * qz quat))
             (1 - 2 * (qx quat * qx quat + qy quat * qy quat)) + pi) / (pi * 2) * 18"
    and p: "pitch_w (onOrientationData quat s) =
      (arcsin (max (- 1) (min 1 (2 * (qw quat * qy quat - qz quat * qx quat)))) + pi / 2) / pi * 18"
    and y: "yaw_w (onOrientationData quat s) =
      (atan2 (2 * (qw quat * qz quat + qx quat * qy quat))
             (1 - 2 * (qy quat * qy quat + qz quat * qz quat)) + pi) / (pi * 2) * 18"
    by (simp_all add: onOrientationData_def Let_def)
  show ?thesis
    unfolding r p y using full half by blast
qed

lemma orientation_at_identity:
  "roll_w (onOrientationData (Quaternion 0 0 0 1) s) = 9"
  "pitch_w (onOrientationData (Quaternion 0 0 0 1) s) = 9"
  "yaw_w (onOrientationData (Quaternion 0 0 0 1) s) = 9"
  by (simp_all add: onOrientationData_def atan2_def)

lemma orientation_at_x:
  "roll_w (onOrientationData (Quaternion 1 0 0 0) s) = 18"
  "pitch_w (onOrientationData (Quaternion 1 0 0 0) s) = 9"
  "yaw_w (onOrientationData (Quaternion 1 0 0 0) s) = 9"
  by (simp_all add: onOrientationData_def atan2_def)

section \<open>The handlers and concrete runs\<close>

lemma onOrientationData_frame [simp]:
  "onArm (onOrientationData quat s) = onArm s"
  "whichArm (onOrientationData quat s) = whichArm s"
  "isUnlocked (onOrientationData quat s) = isUnlocked s"
  "currentPose (onOrientationData quat s) = currentPose s"
  "home_roll (onOrientationData quat s) = home_roll s"
  "home_yaw (onOrientationData quat s) = home_yaw s"
  "home_pitch (onOrientationData quat s) = home_pitch s"
  "max_roll (onOrientationData quat s) = max_roll s"
  "max_yaw (onOrientationData quat s) = max_yaw s"
  "max_pitch (onOrientationData quat s) = max_pitch s"
  "gestures (onOrientationData quat s) = gestures s"
  "word (onOrientationData quat s) = word s"
  "cout (onOrientationData quat s) = cout s"
  by (simp_all add: onOrientationData_def Let_def)

lemma onOrientationData_same:
  "roll_w (onOrientationData quat s) = roll_w (onOrientationData quat s')"
  "pitch_w (onOrientationData quat s) = pitch_w (onOrientationData quat s')"
  "yaw_w (onOrientationData quat s) = yaw_w (onOrientationData quat s')"
  by (simp_all add: onOrientationData_def Let_def)

lemma onPose_fields [simp]:
  "onArm (onPose p s) = onArm s" "whichArm (onPose p s) = whichArm s"
  "isUnlocked (onPose p s) = isUnlocked s"
  "roll_w (onPose p s) = roll_w s" "pitch_w (onPose p s) = pitch_w s"
  "yaw_w (onPose p s) = yaw_w s" "currentPose (onPose p s) = p"
  "home_roll (onPose p s) = home_roll s" "home_yaw (onPose p s) = home_yaw s"
  "home_pitch (onPose p s) = home_pitch s"
  "max_roll (onPose p s) = max_roll s" "max_yaw (onPose p s) = max_yaw s"
  "max_pitch (onPose p s) = max_pitch s"
  "gestures (onPose p s) = gestures s" "word (onPose p s) = word s"
  "cout (onPose p s) = cout s"
  by (simp_all add: onPose_def)

lemmas handler_defs = onUnpair_def onPose_def onArmSync_def onArmUnsync_def onUnlock_def onLock_def

lemmas print_fields = print_frame print_home print_word print_gestures print_max_roll
  print_max_yaw print_max_pitch

text \<open>Evaluating the tolerance test at concrete display values.\<close>

lemma epsilonCompare_eval:
  "\<bar>a\<bar> \<le> 30 \<Longrightarrow> \<bar>a - b\<bar> \<le> 69 / 100 \<Longrightarrow> epsilonCompare a b (rnd32 (7 / 10)) = True"
  "\<bar>a\<bar> \<le> 30 \<Longrightarrow> 71 / 100 \<le> \<bar>a - b\<bar> \<Longrightarrow> epsilonCompare a b (rnd32 (7 / 10)) = False"
  by (simp_all add: epsilonCompare_near epsilonCompare_far)

lemmas concrete = handler_defs print_fields new_DataCollector_def tracking_def at_home_def
  epsilonCompare_eval fsub_eval label_def orientation_at_identity orientation_at_x
  matchLetterToGesture_def letterMap_def

lemma printed_home:
  assumes "tracking s" "at_home s"
  shows "printed s =
     CoutChar (CHR 0x0D) # gauge (roll_w s) @ gauge (pitch_w s) @ gauge (yaw_w s) @
     [CoutChar CHR ''['', CoutLiteral (if isUnlocked s then ''unlocked'' else ''locked  ''),
      CoutChar CHR '']'', CoutChar CHR ''['',
      CoutLiteral (if whichArm s = armLeft then ''L'' else ''R''),
      CoutChar CHR '']'', CoutChar CHR ''['', CoutString (toString (currentPose s)),
      CoutString (replicate (14 - length (toString (currentPose s))) CHR '' ''),
      CoutChar CHR '']'',
      CoutLiteral ''home reached\<newline>'', CoutFloat (max_roll s), Endl,
      CoutFloat (max_pitch s), Endl, CoutFloat (max_yaw s), Endl] @
     (if label s = '''' then [] else [CoutLiteral (label s @ ''\<newline>'')]) @ [Flush]"
  using assms unfolding printed_def
  by (simp add: print_def Let_def tracking_def print_track_cout print_home_reached_cout)

lemma count_home:
  assumes "tracking s" "at_home s"
  shows "count_list (printed s) (CoutLiteral ''home reached\<newline>'') = 1"
  using assms by (simp add: printed_home gauge_def label_def)

lemma tracking_print [simp]: "tracking (print s) = tracking s"
  by (simp add: tracking_def print_frame)

lemma at_home_print: "at_home (print s) = at_home s \<or> (onArm s \<and> currentPose s = fist)"
  by (simp add: at_home_def print_frame print_home)

lemma fires_again: "fires s \<Longrightarrow> fires ((print ^^ n) s)"
proof (induction n)
  case 0
  then show ?case by simp
next
  case (Suc n)
  then have f: "fires ((print ^^ n) s)" by simp
  then have "tracking ((print ^^ n) s)" and "at_home ((print ^^ n) s)"
    by (simp_all add: fires_iff)
  moreover from this have "at_home (print ((print ^^ n) s))"
    using at_home_print [of "(print ^^ n) s"] by (simp add: tracking_def)
  ultimately show ?case by (simp add: fires_iff)
qed

section \<open>Runs of the program\<close>

lemma perform_display_range:
  assumes "0 \<le> roll_w s \<and> roll_w s \<le> 18 \<and> 0 \<le> pitch_w s \<and> pitch_w s \<le> 18 \<and>
           0 \<le> yaw_w s \<and> yaw_w s \<le> 18"
  shows "0 \<le> roll_w (perform c s) \<and> roll_w (perform c s) \<le> 18 \<and>
         0 \<le> pitch_w (perform c s) \<and> pitch_w (perform c s) \<le> 18 \<and>
         0 \<le> yaw_w (perform c s) \<and> yaw_w (perform c s) \<le> 18"
proof (cases c)
  case (OnOrientationData quat)
  then show ?thesis using onOrientationData_range [of quat s] by simp
qed (use assms in \<open>simp_all add: handler_defs print_frame\<close>)

lemma run_display_range:
  "0 \<le> roll_w s \<and> roll_w s \<le> 18 \<and> 0 \<le> pitch_w s \<and> pitch_w s \<le> 18 \<and>
   0 \<le> yaw_w s \<and> yaw_w s \<le> 18 \<Longrightarrow>
   0 \<le> roll_w (run cs s) \<and> roll_w (run cs s) \<le> 18 \<and>
   0 \<le> pitch_w (run cs s) \<and> pitch_w (run cs s) \<le> 18 \<and>
   0 \<le> yaw_w (run cs s) \<and> yaw_w (run cs s) \<le> 18"
proof (induction cs arbitrary: s)
  case Nil
  then show ?case by simp
next
  case (Cons c cs)
  from Cons.prems have "0 \<le> roll_w (perform c s) \<and> roll_w (perform c s) \<le> 18 \<and>
      0 \<le> pitch_w (perform c s) \<and> pitch_w (perform c s) \<le> 18 \<and>
      0 \<le> yaw_w (perform c s) \<and> yaw_w (perform c s) \<le> 18"
    by (rule perform_display_range)
  then show ?case using Cons.IH [of "perform c s"] by simp
qed

lemma reachable_display_range:
  "0 \<le> roll_w (run cs (new_DataCollector arm mr my mp)) \<and>
   roll_w (run cs (new_DataCollector arm mr my mp)) \<le> 18 \<and>
   0 \<le> pitch_w (run cs (new_DataCollector arm mr my mp)) \<and>
   pitch_w (run cs (new_DataCollector arm mr my mp)) \<le> 18 \<and>
   0 \<le> yaw_w (run cs (new_DataCollector arm mr my mp)) \<and>
   yaw_w (run cs (new_DataCollector arm mr my mp)) \<le> 18"
  by (rule run_display_range) (simp add: new_DataCollector_def)

lemma run_home_untouched:
  "\<not> fist_printed cs s \<Longrightarrow>
   home_roll (run cs s) = home_roll s \<and> home_pitch (run cs s) = home_pitch s \<and>
   home_yaw (run cs s) = home_yaw s"
proof (induction cs arbitrary: s)
  case Nil
  then show ?case by simp
next
  case (Cons c cs)
  from Cons.prems have a: "\<not> (c = Print \<and> onArm s \<and> currentPose s = fist)"
    and b: "\<not> fist_printed cs (perform c s)"
    by simp_all
  from a have "home_roll (perform c s) = home_roll s \<and> home_pitch (perform c s) = home_pitch s \<and>
      home_yaw (perform c s) = home_yaw s"
    by (cases c) (auto simp add: handler_defs print_home)
  with Cons.IH [OF b] show ?case by simp
qed

lemma home_unset_before_fist:
  "\<not> fist_printed cs (new_DataCollector arm mr my mp) \<Longrightarrow>
   home_roll (run cs (new_DataCollector arm mr my mp)) = - 1 \<and>
   home_pitch (run cs (new_DataCollector arm mr my mp)) = - 1 \<and>
   home_yaw (run cs (new_DataCollector arm mr my mp)) = - 1"
  using run_home_untouched [of cs "new_DataCollector arm mr my mp"]
  by (simp add: new_DataCollector_def)


section \<open>The claims of the specification\<close>

subsection \<open>C1: the scenario fist, roll away and back, fist\<close>




text \<open>
  What the accumulators start with matters. With a pitch accumulator that starts at 100
  the same run appends the label pitch, which is no key of the table, and the word is
  the single space of the first fist. With a roll accumulator that starts as NaN no
  accumulator is strictly greatest, no label is appended, and the second fist commits a
  second space.
\<close>

lemma scenario_word_uninitialised:
  "word (run [OnArmSync armRight, OnOrientationData (Quaternion 0 0 0 1), OnPose fist, Print,
              OnPose rest, OnOrientationData (Quaternion 1 0 0 0), Print,
              OnOrientationData (Quaternion 0 0 0 1), Print,
              OnPose fist, Print]
         (new_DataCollector armUnknown (Finite 0) (Finite 0) (Finite 100))) = '' ''"
  "word (run [OnArmSync armRight, OnOrientationData (Quaternion 0 0 0 1), OnPose fist, Print,
              OnPose rest, OnOrientationData (Quaternion 1 0 0 0), Print,
              OnOrientationData (Quaternion 0 0 0 1), Print,
              OnPose fist, Print]
         (new_DataCollector armUnknown NaN (Finite 0) (Finite 0))) = ''  ''"
  by (simp_all add: concrete)

subsection \<open>C2: the range of the display values\<close>

text \<open>
  C2: for every unit quaternion the three display values that \<open>onOrientationData\<close>
  stores lie between 0 and 18, and the argument of the arcsine lies between -1 and 1.
\<close>

theorem decoder_display_range:
  assumes "qw quat * qw quat + qx quat * qx quat + qy quat * qy quat + qz quat * qz quat = 1"
  shows "0 \<le> roll_w (onOrientationData quat s) \<and> roll_w (onOrientationData quat s) \<le> 18 \<and>
         0 \<le> pitch_w (onOrientationData quat s) \<and> pitch_w (onOrientationData quat s) \<le> 18 \<and>
         0 \<le> yaw_w (onOrientationData quat s) \<and> yaw_w (onOrientationData quat s) \<le> 18 \<and>
         - 1 \<le> max (- 1) (min 1 (2 * (qw quat * qy quat - qz quat * qx quat))) \<and>
         max (- 1) (min 1 (2 * (qw quat * qy quat - qz quat * qx quat))) \<le> (1::real)"
proof -
  have "- 1 \<le> max (- 1) (min 1 v) \<and> max (- 1) (min 1 v) \<le> 1" for v :: real
    by simp
  with onOrientationData_range [of quat s] show ?thesis
    by blast
qed

theorem decoder_display_range_witness:
  "qw (Quaternion 1 0 0 0) * qw (Quaternion 1 0 0 0) + qx (Quaternion 1 0 0 0) * qx (Quaternion 1 0 0 0)
     + qy (Quaternion 1 0 0 0) * qy (Quaternion 1 0 0 0)
     + qz (Quaternion 1 0 0 0) * qz (Quaternion 1 0 0 0) = 1 \<and>
   roll_w (onOrientationData (Quaternion 1 0 0 0) (new_DataCollector armUnknown (Finite 0) (Finite 0) (Finite 0))) = 18 \<and>
   0 \<le> roll_w (onOrientationData (Quaternion 1 0 0 0) (new_DataCollector armUnknown (Finite 0) (Finite 0) (Finite 0))) \<and>
   roll_w (onOrientationData (Quaternion 1 0 0 0) (new_DataCollector armUnknown (Finite 0) (Finite 0) (Finite 0))) \<le> 18 \<and>
   pitch_w (onOrientationData (Quaternion 1 0 0 0) (new_DataCollector armUnknown (Finite 0) (Finite 0) (Finite 0))) = 9 \<and>
   yaw_w (onOrientationData (Quaternion 1 0 0 0) (new_DataCollector armUnknown (Finite 0) (Finite 0) (Finite 0))) = 9"
  using decoder_display_range [of "Quaternion 1 0 0 0" "new_DataCollector armUnknown (Finite 0) (Finite 0) (Finite 0)"]
  by (simp add: orientation_at_x)

subsection \<open>C3: the label appended when home is reached\<close>

text \<open>
  C3: in every update in which home reached fires, the label appended to the gesture
  buffer is that of the one axis whose accumulator is strictly greater than both others,
  and nothing is appended when no accumulator is strictly greatest.
\<close>

theorem home_reached_label:
  assumes "fires s"
  shows "(max_roll s > max_pitch s \<and> max_roll s > max_yaw s \<longrightarrow>
            gestures (print s) = gestures s @ ''roll'') \<and>
         (max_pitch s > max_roll s \<and> max_pitch s > max_yaw s \<longrightarrow>
            gestures (print s) = gestures s @ ''pitch'') \<and>
         (max_yaw s > max_roll s \<and> max_yaw s > max_pitch s \<longrightarrow>
            gestures (print s) = gestures s @ ''yaw'') \<and>
         (\<not> (max_roll s > max_pitch s \<and> max_roll s > max_yaw s) \<and>
          \<not> (max_pitch s > max_roll s \<and> max_pitch s > max_yaw s) \<and>
          \<not> (max_yaw s > max_roll s \<and> max_yaw s > max_pitch s) \<longrightarrow>
            gestures (print s) = gestures s)"
proof -
  from assms have t: "tracking s" and h: "at_home s"
    by (simp_all add: fires_iff)
  then have "gestures (print s) = gestures s @ label s"
    by (simp add: print_gestures tracking_def)
  then show ?thesis
    using accumulators_exclusive [of s] by (auto simp add: label_def)
qed

text \<open>
  Two states after a fist and a change of pose, still at home: with accumulators 3, 1, 2
  (roll, yaw, pitch) the label is roll; with 2, 1, 2 roll and pitch tie and nothing is
  appended.
\<close>

theorem home_reached_label_witness:
  "fires (run [OnArmSync armRight, OnPose fist, Print, OnPose rest]
            (new_DataCollector armUnknown (Finite 3) (Finite 1) (Finite 2))) \<and>
   gestures (print (run [OnArmSync armRight, OnPose fist, Print, OnPose rest]
            (new_DataCollector armUnknown (Finite 3) (Finite 1) (Finite 2)))) = ''roll'' \<and>
   fires (run [OnArmSync armRight, OnPose fist, Print, OnPose rest]
            (new_DataCollector armUnknown (Finite 2) (Finite 1) (Finite 2))) \<and>
   gestures (print (run [OnArmSync armRight, OnPose fist, Print, OnPose rest]
            (new_DataCollector armUnknown (Finite 2) (Finite 1) (Finite 2)))) = ''''"
  using
    home_reached_label [of "run [OnArmSync armRight, OnPose fist, Print, OnPose rest]
      (new_DataCollector armUnknown (Finite 3) (Finite 1) (Finite 2))"]
    home_reached_label [of "run [OnArmSync armRight, OnPose fist, Print, OnPose rest]
      (new_DataCollector armUnknown (Finite 2) (Finite 1) (Finite 2))"]
  by (simp add: concrete fires_iff)

subsection \<open>C4: home reached on consecutive updates\<close>

text \<open>
  C4 (as amended): with the arm synced, a pose other than fist, fingersSpread and
  waveOut, and the orientation passing the tolerance test of \<open>print\<close> against the home
  reference on all three axes, home reached fires exactly once in that update, and it
  fires again in every following update for as long as pose and orientation stay as they
  are: \<open>print\<close> keeps no record of having fired. The tolerance test is \<open>epsilonCompare\<close>
  with 0.7 rounded to a float and rounded bounds; for display values it passes when the
  deviation is at most 0.69 and fails when it is at least 0.71 (\<open>epsilonCompare_near\<close>,
  \<open>epsilonCompare_far\<close>).
\<close>

theorem home_reached_every_update:
  assumes "onArm s" and "currentPose s \<noteq> fist" and "currentPose s \<noteq> fingersSpread"
    and "currentPose s \<noteq> waveOut" and "at_home s"
  shows "count_list (printed s) (CoutLiteral ''home reached\<newline>'') = 1 \<and>
         fires s \<and> fires (print s) \<and> fires ((print ^^ n) s)"
proof -
  from assms have t: "tracking s"
    by (simp add: tracking_def)
  with assms(5) have f: "fires s"
    by (simp add: fires_iff)
  from f have "fires ((print ^^ 1) s)"
    by (rule fires_again)
  then have "fires (print s)"
    by simp
  with t assms(5) f show ?thesis
    by (simp add: count_home fires_again)
qed

theorem home_reached_every_update_witness:
  "at_home (run [OnArmSync armRight, OnOrientationData (Quaternion 0 0 0 1), OnPose fist, Print,
                 OnPose rest] (new_DataCollector armUnknown (Finite 0) (Finite 0) (Finite 0))) \<and>
   count_list (printed (run [OnArmSync armRight, OnOrientationData (Quaternion 0 0 0 1),
                 OnPose fist, Print, OnPose rest] (new_DataCollector armUnknown (Finite 0) (Finite 0) (Finite 0))))
      (CoutLiteral ''home reached\<newline>'') = 1 \<and>
   fires ((print ^^ 3) (run [OnArmSync armRight, OnOrientationData (Quaternion 0 0 0 1),
                 OnPose fist, Print, OnPose rest] (new_DataCollector armUnknown (Finite 0) (Finite 0) (Finite 0))))"
  using home_reached_every_update [of "run [OnArmSync armRight,
      OnOrientationData (Quaternion 0 0 0 1), OnPose fist, Print, OnPose rest]
      (new_DataCollector armUnknown (Finite 0) (Finite 0) (Finite 0))" 3]
  by (simp add: concrete)

text \<open>
  C4 as stated fails: after a fist at the rest orientation and a change of pose, home
  reached fires in the next update and again in the one after it, although the
  orientation has not moved and the accumulators are the same, all zero, before both.
\<close>

theorem home_reached_repeats:
  "fires (run [OnArmSync armRight, OnOrientationData (Quaternion 0 0 0 1), OnPose fist, Print,
               OnPose rest] (new_DataCollector armUnknown (Finite 0) (Finite 0) (Finite 0))) \<and>
   fires (run [OnArmSync armRight, OnOrientationData (Quaternion 0 0 0 1), OnPose fist, Print,
               OnPose rest, Print] (new_DataCollector armUnknown (Finite 0) (Finite 0) (Finite 0))) \<and>
   max_roll (run [OnArmSync armRight, OnOrientationData (Quaternion 0 0 0 1), OnPose fist, Print,
               OnPose rest] (new_DataCollector armUnknown (Finite 0) (Finite 0) (Finite 0))) = Finite 0 \<and>
   max_pitch (run [OnArmSync armRight, OnOrientationData (Quaternion 0 0 0 1), OnPose fist, Print,
               OnPose rest] (new_DataCollector armUnknown (Finite 0) (Finite 0) (Finite 0))) = Finite 0 \<and>
   max_yaw (run [OnArmSync armRight, OnOrientationData (Quaternion 0 0 0 1), OnPose fist, Print,
               OnPose rest] (new_DataCollector armUnknown (Finite 0) (Finite 0) (Finite 0))) = Finite 0 \<and>
   max_roll (run [OnArmSync armRight, OnOrientationData (Quaternion 0 0 0 1), OnPose fist, Print,
               OnPose rest, Print] (new_DataCollector armUnknown (Finite 0) (Finite 0) (Finite 0))) = Finite 0 \<and>
   max_pitch (run [OnArmSync armRight, OnOrientationData (Quaternion 0 0 0 1), OnPose fist, Print,
               OnPose rest, Print] (new_DataCollector armUnknown (Finite 0) (Finite 0) (Finite 0))) = Finite 0 \<and>
   max_yaw (run [OnArmSync armRight, OnOrientationData (Quaternion 0 0 0 1), OnPose fist, Print,
               OnPose rest, Print] (new_DataCollector armUnknown (Finite 0) (Finite 0) (Finite 0))) = Finite 0"
  by (simp add: concrete fires_iff)

subsection \<open>C5: the accumulators after home is reached\<close>

text \<open>
  C5 (as amended): the home-reached block sets the three accumulators to zero, and the
  three statements after it, which run in the same update, raise each to the absolute
  value of the float difference between the orientation and the home reference on its
  axis. At the end of an update in which home reached fires, with a yaw display value in
  the range 0 to 18 of the decoder, each accumulator therefore equals that absolute
  difference; it is zero only where the difference is zero.
\<close>

theorem home_reached_accumulators:
  assumes "fires s" and "0 \<le> yaw_w s" and "yaw_w s \<le> 18"
  shows "max_roll (print s) = fabs (fsub (roll_w s) (home_roll s)) \<and>
         max_pitch (print s) = fabs (fsub (pitch_w s) (home_pitch s)) \<and>
         max_yaw (print s) = fabs (fsub (yaw_w s) (home_yaw s))"
proof -
  from assms(1) have t: "tracking s" and h: "at_home s"
    by (simp_all add: fires_iff)
  from assms(2,3) have "\<bar>yaw_w s\<bar> \<le> 30"
    by simp
  moreover from h have "epsilonCompare (yaw_w s) (home_yaw s) (rnd32 (7 / 10))"
    by (simp add: at_home_def)
  ultimately have "\<bar>yaw_w s - home_yaw s\<bar> < 71 / 100"
    by (rule epsilonCompare_close)
  then have "fabs (fsub (yaw_w s) (home_yaw s)) \<noteq> Finite 17"
    by (rule fabs_fsub_close)
  with t h show ?thesis
    by (simp add: print_max_roll print_max_pitch print_max_yaw)
qed

theorem home_reached_accumulators_witness:
  "fires \<lparr>onArm = True, whichArm = armRight, isUnlocked = True,
          roll_w = 9.5, pitch_w = 9, yaw_w = 9.25, currentPose = rest,
          home_roll = 9, home_yaw = 9, home_pitch = 9,
          max_roll = Finite 4, max_yaw = Finite 1, max_pitch = Finite 2,
          gestures = '''', word = '' '', cout = []\<rparr> \<and>
   max_roll (print \<lparr>onArm = True, whichArm = armRight, isUnlocked = True,
          roll_w = 9.5, pitch_w = 9, yaw_w = 9.25, currentPose = rest,
          home_roll = 9, home_yaw = 9, home_pitch = 9,
          max_roll = Finite 4, max_yaw = Finite 1, max_pitch = Finite 2,
          gestures = '''', word = '' '', cout = []\<rparr>) = Finite (1 / 2) \<and>
   max_pitch (print \<lparr>onArm = True, whichArm = armRight, isUnlocked = True,
          roll_w = 9.5, pitch_w = 9, yaw_w = 9.25, currentPose = rest,
          home_roll = 9, home_yaw = 9, home_pitch = 9,
          max_roll = Finite 4, max_yaw = Finite 1, max_pitch = Finite 2,
          gestures = '''', word = '' '', cout = []\<rparr>) = Finite 0 \<and>
   max_yaw (print \<lparr>onArm = True, whichArm = armRight, isUnlocked = True,
          roll_w = 9.5, pitch_w = 9, yaw_w = 9.25, currentPose = rest,
          home_roll = 9, home_yaw = 9, home_pitch = 9,
          max_roll = Finite 4, max_yaw = Finite 1, max_pitch = Finite 2,
          gestures = '''', word = '' '', cout = []\<rparr>) = Finite (1 / 4)"
  using home_reached_accumulators [of "\<lparr>onArm = True, whichArm = armRight, isUnlocked = True,
          roll_w = 9.5, pitch_w = 9, yaw_w = 9.25, currentPose = rest,
          home_roll = 9, home_yaw = 9, home_pitch = 9,
          max_roll = Finite 4, max_yaw = Finite 1, max_pitch = Finite 2,
          gestures = '''', word = '' '', cout = []\<rparr>"]
  by (simp add: fires_iff tracking_def at_home_def epsilonCompare_eval fsub_eval)

text \<open>
  C5 as stated fails: home is 9 on every axis and the roll display value is 9.5, within
  the tolerance. Home reached fires, and at the end of the update the roll accumulator
  is 0.5, not zero.
\<close>

theorem home_reached_accumulators_nonzero:
  "fires \<lparr>onArm = True, whichArm = armRight, isUnlocked = True,
          roll_w = 9.5, pitch_w = 9, yaw_w = 9, currentPose = rest,
          home_roll = 9, home_yaw = 9, home_pitch = 9,
          max_roll = Finite 4, max_yaw = Finite 1, max_pitch = Finite 2,
          gestures = '''', word = '' '', cout = []\<rparr> \<and>
   max_roll (print \<lparr>onArm = True, whichArm = armRight, isUnlocked = True,
          roll_w = 9.5, pitch_w = 9, yaw_w = 9, currentPose = rest,
          home_roll = 9, home_yaw = 9, home_pitch = 9,
          max_roll = Finite 4, max_yaw = Finite 1, max_pitch = Finite 2,
          gestures = '''', word = '' '', cout = []\<rparr>) = Finite (1 / 2) \<and>
   max_roll (print \<lparr>onArm = True, whichArm = armRight, isUnlocked = True,
          roll_w = 9.5, pitch_w = 9, yaw_w = 9, currentPose = rest,
          home_roll = 9, home_yaw = 9, home_pitch = 9,
          max_roll = Finite 4, max_yaw = Finite 1, max_pitch = Finite 2,
          gestures = '''', word = '' '', cout = []\<rparr>) \<noteq> Finite 0"
  by (simp add: concrete fires_iff)

subsection \<open>C6: no home reached before the first fist\<close>

text \<open>
  C6: in every state the program can reach in which the home reference still holds its
  initial value -1 on all three axes, home reached does not fire. The display values lie
  between 0 and 18, at a distance of at least 1 from -1, and the tolerance test fails
  from a distance of 0.71 on; the same holds after any further orientation sample.
\<close>

theorem no_home_no_fire:
  assumes "home_roll (run cs (new_DataCollector arm mr my mp)) = - 1"
    and "home_yaw (run cs (new_DataCollector arm mr my mp)) = - 1"
    and "home_pitch (run cs (new_DataCollector arm mr my mp)) = - 1"
  shows "\<not> fires (run cs (new_DataCollector arm mr my mp)) \<and>
         \<not> fires (onOrientationData quat (run cs (new_DataCollector arm mr my mp)))"
proof -
  have far: "\<not> epsilonCompare a (- 1) (rnd32 (7 / 10))" if "0 \<le> a" "a \<le> 18" for a
    using that by (intro epsilonCompare_far) simp_all
  have "0 \<le> roll_w (run cs (new_DataCollector arm mr my mp))"
    "roll_w (run cs (new_DataCollector arm mr my mp)) \<le> 18"
    using reachable_display_range [of cs arm mr my mp] by simp_all
  then have "\<not> at_home (run cs (new_DataCollector arm mr my mp))"
    using assms(1) far by (simp add: at_home_def)
  moreover have "\<not> at_home (onOrientationData quat (run cs (new_DataCollector arm mr my mp)))"
    using assms(1) far onOrientationData_range [of quat "run cs (new_DataCollector arm mr my mp)"]
    by (simp add: at_home_def)
  ultimately show ?thesis
    by (simp add: fires_iff)
qed

theorem no_home_no_fire_witness:
  "home_roll (run [OnArmSync armRight, OnOrientationData (Quaternion 0 0 0 1), OnPose rest, Print]
     (new_DataCollector armUnknown (Finite 0) (Finite 0) (Finite 0))) = - 1 \<and>
   home_yaw (run [OnArmSync armRight, OnOrientationData (Quaternion 0 0 0 1), OnPose rest, Print]
     (new_DataCollector armUnknown (Finite 0) (Finite 0) (Finite 0))) = - 1 \<and>
   home_pitch (run [OnArmSync armRight, OnOrientationData (Quaternion 0 0 0 1), OnPose rest, Print]
     (new_DataCollector armUnknown (Finite 0) (Finite 0) (Finite 0))) = - 1 \<and>
   tracking (run [OnArmSync armRight, OnOrientationData (Quaternion 0 0 0 1), OnPose rest, Print]
     (new_DataCollector armUnknown (Finite 0) (Finite 0) (Finite 0))) \<and>
   \<not> fires (run [OnArmSync armRight, OnOrientationData (Quaternion 0 0 0 1), OnPose rest, Print]
     (new_DataCollector armUnknown (Finite 0) (Finite 0) (Finite 0)))"
  using no_home_no_fire [of "[OnArmSync armRight, OnOrientationData (Quaternion 0 0 0 1),
      OnPose rest, Print]" armUnknown "Finite 0" "Finite 0" "Finite 0"]
  by (simp add: concrete)

subsection \<open>C7: duplicate keys of the letter table\<close>

text \<open>
  C7: the later of two assignments to a key wins, so \<open>matchLetterToGesture\<close> returns d
  for rollpitch, not b, and g for rollpitchyaw, not e.
\<close>

theorem matchLetterToGesture_duplicates:
  "matchLetterToGesture ''rollpitch'' = ''d'' \<and> matchLetterToGesture ''rollpitch'' \<noteq> ''b'' \<and>
   matchLetterToGesture ''rollpitchyaw'' = ''g'' \<and> matchLetterToGesture ''rollpitchyaw'' \<noteq> ''e''"
  by (simp add: matchLetterToGesture_def letterMap_def)

subsection \<open>C8: a yaw deviation of exactly 17\<close>

text \<open>
  C8: in every update that runs the accumulator statements (arm synced, pose other than
  fist, fingersSpread and waveOut, yaw display value in the range 0 to 18 of the
  decoder), when the absolute difference between the yaw display value and the home yaw,
  as \<open>print\<close> computes it in float arithmetic, is exactly 17, the yaw accumulator keeps
  its value, and the roll and pitch accumulators are updated as always: each becomes the
  absolute difference on its axis where that is greater, and keeps its value otherwise.
\<close>

theorem yaw_seventeen_excluded:
  assumes "onArm s" and "currentPose s \<noteq> fist" and "currentPose s \<noteq> fingersSpread"
    and "currentPose s \<noteq> waveOut" and "0 \<le> yaw_w s" and "yaw_w s \<le> 18"
    and "fabs (fsub (yaw_w s) (home_yaw s)) = Finite 17"
  shows "max_yaw (print s) = max_yaw s \<and>
         max_roll (print s) =
           (if fabs (fsub (roll_w s) (home_roll s)) > max_roll s
            then fabs (fsub (roll_w s) (home_roll s)) else max_roll s) \<and>
         max_pitch (print s) =
           (if fabs (fsub (pitch_w s) (home_pitch s)) > max_pitch s
            then fabs (fsub (pitch_w s) (home_pitch s)) else max_pitch s)"
proof -
  from assms have t: "tracking s"
    by (simp add: tracking_def)
  have "\<not> at_home s"
  proof
    assume "at_home s"
    then have e: "epsilonCompare (yaw_w s) (home_yaw s) (rnd32 (7 / 10))"
      by (simp add: at_home_def)
    from assms(5,6) have "\<bar>yaw_w s\<bar> \<le> 30"
      by simp
    from this e have "\<bar>yaw_w s - home_yaw s\<bar> < 71 / 100"
      by (rule epsilonCompare_close)
    then have "fabs (fsub (yaw_w s) (home_yaw s)) \<noteq> Finite 17"
      by (rule fabs_fsub_close)
    with assms(7) show False by simp
  qed
  with t assms(7) show ?thesis
    by (simp add: print_max_roll print_max_pitch print_max_yaw)
qed

text \<open>
  A state whose yaw display value is the float nearest 17.1 and whose home yaw is the
  float nearest 0.1: the exact difference is not 17, the float difference is.
\<close>

theorem yaw_seventeen_excluded_witness:
  "yaw_w \<lparr>onArm = True, whichArm = armRight, isUnlocked = True,
          roll_w = 12, pitch_w = 9, yaw_w = 8965325 / 524288, currentPose = rest,
          home_roll = 9, home_yaw = 13421773 / 134217728, home_pitch = 9,
          max_roll = Finite 1, max_yaw = Finite 2, max_pitch = Finite 4,
          gestures = '''', word = '' '', cout = []\<rparr> - home_yaw \<lparr>onArm = True, whichArm = armRight, isUnlocked = True,
          roll_w = 12, pitch_w = 9, yaw_w = 8965325 / 524288, currentPose = rest,
          home_roll = 9, home_yaw = 13421773 / 134217728, home_pitch = 9,
          max_roll = Finite 1, max_yaw = Finite 2, max_pitch = Finite 4,
          gestures = '''', word = '' '', cout = []\<rparr> \<noteq> 17 \<and>
   fabs (fsub (yaw_w \<lparr>onArm = True, whichArm = armRight, isUnlocked = True,
          roll_w = 12, pitch_w = 9, yaw_w = 8965325 / 524288, currentPose = rest,
          home_roll = 9, home_yaw = 13421773 / 134217728, home_pitch = 9,
          max_roll = Finite 1, max_yaw = Finite 2, max_pitch = Finite 4,
          gestures = '''', word = '' '', cout = []\<rparr>) (home_yaw \<lparr>onArm = True, whichArm = armRight, isUnlocked = True,
          roll_w = 12, pitch_w = 9, yaw_w = 8965325 / 524288, currentPose = rest,
          home_roll = 9, home_yaw = 13421773 / 134217728, home_pitch = 9,
          max_roll = Finite 1, max_yaw = Finite 2, max_pitch = Finite 4,
          gestures = '''', word = '' '', cout = []\<rparr>)) = Finite 17 \<and>
   max_yaw (print \<lparr>onArm = True, whichArm = armRight, isUnlocked = True,
          roll_w = 12, pitch_w = 9, yaw_w = 8965325 / 524288, currentPose = rest,
          home_roll = 9, home_yaw = 13421773 / 134217728, home_pitch = 9,
          max_roll = Finite 1, max_yaw = Finite 2, max_pitch = Finite 4,
          gestures = '''', word = '' '', cout = []\<rparr>) = Finite 2 \<and>
   max_roll (print \<lparr>onArm = True, whichArm = armRight, isUnlocked = True,
          roll_w = 12, pitch_w = 9, yaw_w = 8965325 / 524288, currentPose = rest,
          home_roll = 9, home_yaw = 13421773 / 134217728, home_pitch = 9,
          max_roll = Finite 1, max_yaw = Finite 2, max_pitch = Finite 4,
          gestures = '''', word = '' '', cout = []\<rparr>) = Finite 3 \<and>
   max_pitch (print \<lparr>onArm = True, whichArm = armRight, isUnlocked = True,
          roll_w = 12, pitch_w = 9, yaw_w = 8965325 / 524288, currentPose = rest,
          home_roll = 9, home_yaw = 13421773 / 134217728, home_pitch = 9,
          max_roll = Finite 1, max_yaw = Finite 2, max_pitch = Finite 4,
          gestures = '''', word = '' '', cout = []\<rparr>) = Finite 4"
  using yaw_seventeen_excluded [of "\<lparr>onArm = True, whichArm = armRight, isUnlocked = True,
          roll_w = 12, pitch_w = 9, yaw_w = 8965325 / 524288, currentPose = rest,
          home_roll = 9, home_yaw = 13421773 / 134217728, home_pitch = 9,
          max_roll = Finite 1, max_yaw = Finite 2, max_pitch = Finite 4,
          gestures = '''', word = '' '', cout = []\<rparr>"]
  by (simp add: fsub_eval rnd32_seventeen)

subsection \<open>C9: when the home reference is captured\<close>

text \<open>
  C9 (as amended): the home reference is set from the current orientation by every call
  of \<open>print\<close> made while the arm is synced and the current pose is fist, the first after
  the pose became fist and every later one while it stays fist; no other call changes
  it. \<open>print\<close> compares the pose with fist and keeps no record of the previous pose.
\<close>

theorem home_captured_at_every_fist_print:
  "home_roll (perform c s) =
     (if c = Print \<and> onArm s \<and> currentPose s = fist then roll_w s else home_roll s) \<and>
   home_pitch (perform c s) =
     (if c = Print \<and> onArm s \<and> currentPose s = fist then pitch_w s else home_pitch s) \<and>
   home_yaw (perform c s) =
     (if c = Print \<and> onArm s \<and> currentPose s = fist then yaw_w s else home_yaw s)"
  by (cases c) (simp_all add: handler_defs print_home)

theorem home_captured_at_every_fist_print_witness:
  "home_roll (perform Print (run [OnArmSync armRight, OnOrientationData (Quaternion 0 0 0 1),
      OnPose fist, Print, OnOrientationData (Quaternion 1 0 0 0)]
      (new_DataCollector armUnknown (Finite 0) (Finite 0) (Finite 0)))) = 18 \<and>
   home_roll (perform (OnPose rest) (run [OnArmSync armRight,
      OnOrientationData (Quaternion 0 0 0 1), OnPose fist, Print,
      OnOrientationData (Quaternion 1 0 0 0)] (new_DataCollector armUnknown (Finite 0) (Finite 0) (Finite 0)))) = 9"
  using
    home_captured_at_every_fist_print [of Print "run [OnArmSync armRight,
      OnOrientationData (Quaternion 0 0 0 1), OnPose fist, Print,
      OnOrientationData (Quaternion 1 0 0 0)] (new_DataCollector armUnknown (Finite 0) (Finite 0) (Finite 0))"]
    home_captured_at_every_fist_print [of "OnPose rest" "run [OnArmSync armRight,
      OnOrientationData (Quaternion 0 0 0 1), OnPose fist, Print,
      OnOrientationData (Quaternion 1 0 0 0)] (new_DataCollector armUnknown (Finite 0) (Finite 0) (Finite 0))"]
  by (simp add: concrete)

text \<open>
  C9 as stated fails: the pose becomes fist once, at the rest orientation, and the next
  update captures home roll 9. The pose stays fist, the device turns half a turn about
  its x axis, and the following update captures home roll 18.
\<close>

theorem home_recaptured_while_fist:
  "currentPose (run [OnArmSync armRight, OnOrientationData (Quaternion 0 0 0 1), OnPose fist, Print]
      (new_DataCollector armUnknown (Finite 0) (Finite 0) (Finite 0))) = fist \<and>
   home_roll (run [OnArmSync armRight, OnOrientationData (Quaternion 0 0 0 1), OnPose fist, Print]
      (new_DataCollector armUnknown (Finite 0) (Finite 0) (Finite 0))) = 9 \<and>
   currentPose (run [OnArmSync armRight, OnOrientationData (Quaternion 0 0 0 1), OnPose fist, Print,
       OnOrientationData (Quaternion 1 0 0 0), Print]
      (new_DataCollector armUnknown (Finite 0) (Finite 0) (Finite 0))) = fist \<and>
   home_roll (run [OnArmSync armRight, OnOrientationData (Quaternion 0 0 0 1), OnPose fist, Print,
       OnOrientationData (Quaternion 1 0 0 0), Print]
      (new_DataCollector armUnknown (Finite 0) (Finite 0) (Finite 0))) = 18"
  by (simp add: concrete)

subsection \<open>C10: gestures the letter table does not know\<close>

text \<open>
  C10: for every non-empty gesture string that is no key of the letter table,
  \<open>matchLetterToGesture\<close> returns the empty string, and a fist commit with such a gesture
  buffer leaves the word as it was. The eleven assignments with a non-empty key give the
  table nine distinct non-empty keys (\<open>letterMap_dom\<close>).
\<close>

theorem unknown_gesture_commits_nothing:
  assumes "gestures s \<noteq> ''''" and "gestures s \<notin> dom letterMap"
  shows "matchLetterToGesture (gestures s) = '''' \<and>
         (onArm s \<and> currentPose s = fist \<longrightarrow> word (print s) = word s)"
  using assms by (auto simp add: matchLetterToGesture_def print_word split: option.splits)

theorem unknown_gesture_commits_nothing_witness:
  "gestures \<lparr>onArm = True, whichArm = armRight, isUnlocked = True,
          roll_w = 9, pitch_w = 9, yaw_w = 9, currentPose = fist,
          home_roll = 9, home_yaw = 9, home_pitch = 9,
          max_roll = Finite 0, max_yaw = Finite 0, max_pitch = Finite 0,
          gestures = ''yawyaw'', word = '' c'', cout = []\<rparr> \<noteq> '''' \<and>
   matchLetterToGesture ''yawyaw'' = '''' \<and>
   word (print \<lparr>onArm = True, whichArm = armRight, isUnlocked = True,
          roll_w = 9, pitch_w = 9, yaw_w = 9, currentPose = fist,
          home_roll = 9, home_yaw = 9, home_pitch = 9,
          max_roll = Finite 0, max_yaw = Finite 0, max_pitch = Finite 0,
          gestures = ''yawyaw'', word = '' c'', cout = []\<rparr>) = '' c''"
  using unknown_gesture_commits_nothing [of "\<lparr>onArm = True, whichArm = armRight,
          isUnlocked = True, roll_w = 9, pitch_w = 9, yaw_w = 9, currentPose = fist,
          home_roll = 9, home_yaw = 9, home_pitch = 9,
          max_roll = Finite 0, max_yaw = Finite 0, max_pitch = Finite 0,
          gestures = ''yawyaw'', word = '' c'', cout = []\<rparr>"]
  by (simp add: letterMap_dom)


end
